theory Spec2Isabelle
  imports Complex_Main "HOL-Library.AList"
begin

section \<open>Chatbot proxy: a shallow embedding of main.py\<close>

text \<open>
  The module defines two FastAPI endpoints: \<open>GET /test\<close> and \<open>POST /chat\<close>.  The second one
  resolves an OpenRouter API key, forwards the chat request to OpenRouter with
  \<open>requests.post\<close> and reshapes the answer.

  Python strings are modelled by \<^typ>\<open>string\<close>, read as sequences of code points below 256.
  That is exactly the range of an HTTP header value as the server hands it to the handler
  (header bytes are decoded as Latin-1); \<open>str.lower\<close> and \<open>str.isspace\<close> are written out for
  this range.  To the strings of the request and response bodies the handler applies
  nothing but a test for emptiness, concatenation and \<open>strip\<close>.

  What the handlers do beyond returning a value is explicit: the environment and the
  upstream server are a parameter, a raised exception is the left summand of the result,
  and each handler takes the list of outbound calls made so far and returns it, extended
  by the calls it makes.
\<close>

subsection \<open>Python values\<close>

text \<open>What \<open>json.loads\<close> can produce, and what \<open>Dict[str, Any]\<close> of a request body holds.
  A \<open>dict\<close> is an association list in insertion order; its keys are distinct.\<close>

datatype json =
    JNull
  | JBool bool
  | JInt int
  | JFloat real
  | JStr string
  | JArr "json list"
  | JObj "(string \<times> json) list"

datatype py_exception =
    KeyError
  | IndexError
  | TypeError
  | AttributeError
  | ValueError
  | JSONDecodeError
  | ValidationError
  | OtherException string

text \<open>What leaves the handler instead of a value: an \<open>HTTPException(status_code, detail)\<close>,
  or any other exception that no \<open>except\<close> clause of the handler catches.\<close>

datatype error =
    HTTPException int json
  | Uncaught py_exception

subsection \<open>String methods\<close>

text \<open>\<open>str.lower\<close> on code points below 256: the ASCII capitals and the Latin-1 capitals
  \<open>0xC0..0xDE\<close> except the multiplication sign \<open>0xD7\<close> move up by 32.\<close>

definition lower_char :: "char \<Rightarrow> char" where
  "lower_char c =
     (let n = (of_char c :: nat)
      in if (65 \<le> n \<and> n \<le> 90) \<or> (192 \<le> n \<and> n \<le> 222 \<and> n \<noteq> 215)
         then char_of (n + 32) else c)"

definition lower :: "string \<Rightarrow> string" where
  "lower s = map lower_char s"

definition startswith :: "string \<Rightarrow> string \<Rightarrow> bool" where
  "startswith s p = (take (length p) s = p)"

text \<open>\<open>s.split(sep, maxsplit)\<close> for a separator of one character.\<close>

fun split :: "char \<Rightarrow> nat \<Rightarrow> string \<Rightarrow> string list" where
  "split sep 0 s = [s]"
| "split sep (Suc n) [] = [[]]"
| "split sep (Suc n) (c # cs) =
     (if c = sep then [] # split sep n cs
      else (case split sep (Suc n) cs of
              [] \<Rightarrow> [[c]]
            | x # xs \<Rightarrow> (c # x) # xs))"

text \<open>\<open>xs[i]\<close> for a non-negative index: out of range raises \<open>IndexError\<close>.\<close>

definition getitem :: "'a list \<Rightarrow> nat \<Rightarrow> py_exception + 'a" where
  "getitem xs i = (if i < length xs then Inr (xs ! i) else Inl IndexError)"

text \<open>\<open>str.isspace\<close> of one character, for code points below 256.\<close>

definition isspace :: "char \<Rightarrow> bool" where
  "isspace c =
     (let n = (of_char c :: nat)
      in (9 \<le> n \<and> n \<le> 13) \<or> (28 \<le> n \<and> n \<le> 32) \<or> n = 133 \<or> n = 160)"

definition strip :: "string \<Rightarrow> string" where
  "strip s = rev (dropWhile isspace (rev (dropWhile isspace s)))"

text \<open>Truth value of an \<open>Optional[str]\<close>: \<open>None\<close> and the empty string are false.\<close>

fun truthy :: "string option \<Rightarrow> bool" where
  "truthy None = False"
| "truthy (Some s) = (s \<noteq> [])"

text \<open>\<open>a or b\<close>: the first operand when it is true, the second otherwise.\<close>

definition py_or :: "string option \<Rightarrow> string option \<Rightarrow> string option" where
  "py_or a b = (if truthy a then a else b)"

subsection \<open>Subscripting parsed JSON\<close>

text \<open>\<open>v[key]\<close> with a string key.  Only a \<open>dict\<close> accepts it; a missing key raises
  \<open>KeyError\<close>, every other value raises \<open>TypeError\<close>.\<close>

fun getitem_key :: "json \<Rightarrow> string \<Rightarrow> py_exception + json" where
  "getitem_key (JObj kvs) k = (case map_of kvs k of None \<Rightarrow> Inl KeyError | Some v \<Rightarrow> Inr v)"
| "getitem_key v k = Inl TypeError"

text \<open>\<open>v[0]\<close>.  A list gives its first element, a string its first character (as a string);
  both raise \<open>IndexError\<close> when empty.  The keys of a parsed JSON object are strings, so
  the integer key \<open>0\<close> is never present in a \<open>dict\<close>.\<close>

fun getitem_0 :: "json \<Rightarrow> py_exception + json" where
  "getitem_0 (JArr xs) = getitem xs 0"
| "getitem_0 (JStr s) = (case getitem s 0 of Inl e \<Rightarrow> Inl e | Inr c \<Rightarrow> Inr (JStr [c]))"
| "getitem_0 (JObj kvs) = Inl KeyError"
| "getitem_0 v = Inl TypeError"

text \<open>\<open>v.strip()\<close>: only \<open>str\<close> has the method.\<close>

fun strip_method :: "json \<Rightarrow> py_exception + string" where
  "strip_method (JStr s) = Inr (strip s)"
| "strip_method v = Inl AttributeError"

text \<open>\<open>v.get(key, default)\<close>: only \<open>dict\<close> has the method.\<close>

fun get_method :: "json \<Rightarrow> string \<Rightarrow> json \<Rightarrow> py_exception + json" where
  "get_method (JObj kvs) k d = Inr (case map_of kvs k of None \<Rightarrow> d | Some v \<Rightarrow> v)"
| "get_method v k d = Inl AttributeError"

text \<open>\<open>d.update(other)\<close>: every item of \<open>other\<close> in order; a key already present keeps
  its place and takes the new value, a new key goes to the end.\<close>

definition dict_update :: "(string \<times> json) list \<Rightarrow> (string \<times> json) list \<Rightarrow> (string \<times> json) list" where
  "dict_update d other = fold (\<lambda>(k, v). AList.update k v) other d"

subsection \<open>Request and response models\<close>

record Message =
  role :: string
  content :: string

record ChatRequest =
  messages :: "Message list"
  model :: string
  temperature :: "real option"
  top_p :: "real option"
  api_key :: "string option"
  extra :: "(string \<times> json) list option"

record ChatResponse =
  reply :: string
  model' :: string

text \<open>\<open>m.dict()\<close>.\<close>

definition Message_dict :: "Message \<Rightarrow> json" where
  "Message_dict m = JObj [(''role'', JStr (role m)), (''content'', JStr (content m))]"

text \<open>An \<open>Optional[float]\<close> as a JSON value.\<close>

definition optional_float :: "real option \<Rightarrow> json" where
  "optional_float x = (case x of None \<Rightarrow> JNull | Some r \<Rightarrow> JFloat r)"

text \<open>\<open>ChatResponse(reply=reply, model=used_model)\<close>.  The field \<open>model\<close> of the response
  is \<open>model'\<close> here, \<open>model\<close> being the field of the request.  \<open>reply\<close> is a \<open>str\<close> already
  (the result of \<open>strip\<close>); \<open>used_model\<close> is whatever the upstream body held under
  \<open>"model"\<close>, and the field is declared \<open>model: str\<close>.  Validation rejects \<open>None\<close>, lists
  and dicts; numbers and booleans are rejected in strict string validation, which is what
  is modelled here.\<close>

fun ChatResponse_init :: "string \<Rightarrow> json \<Rightarrow> py_exception + ChatResponse" where
  "ChatResponse_init r (JStr m) = Inr \<lparr>reply = r, model' = m\<rparr>"
| "ChatResponse_init r v = Inl ValidationError"

subsection \<open>The world outside the handler\<close>

text \<open>The one outbound call, \<open>requests.post(url, headers=headers, json=payload, timeout=60)\<close>.\<close>

record outbound_request =
  http_method :: string
  url :: string
  headers :: "(string \<times> string) list"
  json_payload :: "(string \<times> json) list"
  timeout :: int

text \<open>The \<open>requests.Response\<close>: \<open>r.status_code\<close>, \<open>r.text\<close> and the outcome of \<open>r.json()\<close>
  (\<open>None\<close> when it raises because the body is not JSON).\<close>

record response =
  status_code :: int
  resp_text :: string
  resp_json :: "json option"

text \<open>\<open>requests.post\<close> returns a response, raises a \<open>requests.RequestException\<close> (with its
  \<open>str(e)\<close>), or raises something else.\<close>

datatype post_result =
    Response response
  | RequestException string
  | OtherError py_exception

text \<open>The process environment, the upstream server, and the table of
  \<open>http.HTTPStatus(code).phrase\<close>: the phrase of a status code, or the exception raised
  for a code the table does not know.  The table belongs to the Python library and is a
  parameter here.  The handlers thread the list of outbound calls made so far.\<close>

record world =
  environ :: "string \<rightharpoonup> string"
  requests_post :: "outbound_request \<Rightarrow> post_result"
  status_phrase :: "int \<Rightarrow> py_exception + string"

text \<open>\<open>HTTPException(status_code=c, detail=d)\<close>.  The constructor keeps every detail but
  \<open>None\<close>, which it replaces by the phrase of the status code; looking the phrase up
  raises for a code without one.\<close>

definition HTTPException_init :: "world \<Rightarrow> int \<Rightarrow> json \<Rightarrow> error" where
  "HTTPException_init w c detail =
     (if detail = JNull
      then (case status_phrase w c of
              Inl e \<Rightarrow> Uncaught e
            | Inr phrase \<Rightarrow> HTTPException c (JStr phrase))
      else HTTPException c detail)"

definition getenv :: "world \<Rightarrow> string \<Rightarrow> string option" where
  "getenv w k = environ w k"

definition getenv_default :: "world \<Rightarrow> string \<Rightarrow> string \<Rightarrow> string" where
  "getenv_default w k d = (case environ w k of None \<Rightarrow> d | Some v \<Rightarrow> v)"

subsection \<open>\<open>GET /test\<close>\<close>

text \<open>Lines 45 to 47.  The function takes no argument and returns a \<open>dict\<close>.\<close>

definition test :: "world \<Rightarrow> outbound_request list \<Rightarrow> (error + json) \<times> outbound_request list" where
  "test w calls = (Inr (JObj [(''status'', JStr ''ok'')]), calls)"

subsection \<open>\<open>POST /chat\<close>\<close>

text \<open>Lines 57 to 59: the key of an \<open>Authorization: Bearer\<close> header.\<close>

definition bearer_key :: "string option \<Rightarrow> py_exception + string option" where
  "bearer_key authorization =
     (case authorization of
        None \<Rightarrow> Inr None
      | Some a \<Rightarrow>
          if a \<noteq> [] \<and> startswith (lower a) ''bearer ''
          then (case getitem (split CHR '' '' 1 a) 1 of
                  Inl e \<Rightarrow> Inl e
                | Inr t \<Rightarrow> Inr (Some (strip t)))
          else Inr None)"

text \<open>Lines 61 to 66.\<close>

definition resolve_api_key ::
  "world \<Rightarrow> ChatRequest \<Rightarrow> string option \<Rightarrow> string option \<Rightarrow> string option" where
  "resolve_api_key w req x_openrouter_key bearer =
     py_or (py_or (py_or (api_key req) (getenv w ''OPENROUTER_API_KEY'')) x_openrouter_key) bearer"

definition missing_key_detail :: string where
  "missing_key_detail =
     ''OpenRouter API key not provided. Add 'api_key' in JSON body, or set 'OPENROUTER_API_KEY' env var, '' @
     ''or send header 'x-openrouter-key: <key>' or 'Authorization: Bearer <key>'.''"

text \<open>Lines 77 to 94: the outbound request for a resolved key.  \<open>req.extra\<close> is true when it
  is neither \<open>None\<close> nor empty; it is a \<open>dict\<close> by the type of the field, so the test
  \<open>isinstance(req.extra, dict)\<close> holds.\<close>

definition build_payload :: "ChatRequest \<Rightarrow> (string \<times> json) list" where
  "build_payload req =
     (let payload =
        [(''model'', JStr (model req)),
         (''messages'', JArr (map Message_dict (messages req))),
         (''temperature'', optional_float (temperature req)),
         (''top_p'', optional_float (top_p req))]
      in case extra req of
           None \<Rightarrow> payload
         | Some ex \<Rightarrow> if ex \<noteq> [] then dict_update payload ex else payload)"

definition build_request :: "world \<Rightarrow> ChatRequest \<Rightarrow> string \<Rightarrow> outbound_request" where
  "build_request w req key =
     \<lparr>http_method = ''POST'',
      url = ''https://openrouter.ai/api/v1/chat/completions'',
      headers =
        [(''Authorization'', ''Bearer '' @ key),
         (''Content-Type'', ''application/json''),
         (''HTTP-Referer'', getenv_default w ''APP_URL'' ''http://localhost:3000''),
         (''X-Title'', getenv_default w ''APP_NAME'' ''Vibe Chatbot'')],
      json_payload = build_payload req,
      timeout = 60\<rparr>"

text \<open>Lines 110 to 112, the body of the \<open>try\<close>.\<close>

definition extract_reply :: "ChatRequest \<Rightarrow> json \<Rightarrow> py_exception + (string \<times> json)" where
  "extract_reply req data =
     (case getitem_key data ''choices'' of Inl e \<Rightarrow> Inl e | Inr choices \<Rightarrow>
     (case getitem_0 choices of Inl e \<Rightarrow> Inl e | Inr choice \<Rightarrow>
     (case getitem_key choice ''message'' of Inl e \<Rightarrow> Inl e | Inr message \<Rightarrow>
     (case getitem_key message ''content'' of Inl e \<Rightarrow> Inl e | Inr c \<Rightarrow>
     (case strip_method c of Inl e \<Rightarrow> Inl e | Inr stripped \<Rightarrow>
     (case get_method data ''model'' (JStr (model req)) of Inl e \<Rightarrow> Inl e | Inr m \<Rightarrow>
      Inr (stripped, m)))))))"

text \<open>Lines 101 to 116: what the handler makes of the upstream response.  At line 106 the
  detail is whatever \<open>r.json()\<close> returned, \<open>None\<close> for the JSON value \<open>null\<close>; at the other
  places where the handler raises an \<open>HTTPException\<close> the detail is a string.\<close>

definition handle_response :: "world \<Rightarrow> ChatRequest \<Rightarrow> response \<Rightarrow> error + ChatResponse" where
  "handle_response w req r =
     (if status_code r \<ge> 400
      then Inl (HTTPException_init w (status_code r)
                  (case resp_json r of
                     Some data \<Rightarrow> data
                   | None \<Rightarrow> JObj [(''error'', JStr (resp_text r))]))
      else (case resp_json r of
              None \<Rightarrow> Inl (Uncaught JSONDecodeError)
            | Some data \<Rightarrow>
                (case extract_reply req data of
                   Inl e \<Rightarrow>
                     Inl (HTTPException 500 (JStr ''Unexpected response format from OpenRouter''))
                 | Inr (stripped, m) \<Rightarrow>
                     (case ChatResponse_init stripped m of
                        Inl e \<Rightarrow> Inl (Uncaught e)
                      | Inr resp \<Rightarrow> Inr resp))))"

text \<open>Lines 77 to 116: the outbound call for a resolved key, and its outcome.  The call
  made is appended to the calls made so far.\<close>

definition call_upstream ::
  "world \<Rightarrow> ChatRequest \<Rightarrow> string \<Rightarrow> outbound_request list
     \<Rightarrow> (error + ChatResponse) \<times> outbound_request list" where
  "call_upstream w req key calls =
     (let rq = build_request w req key
      in case requests_post w rq of
           RequestException e \<Rightarrow>
             (Inl (HTTPException 502 (JStr (''Upstream request failed: '' @ e))), calls @ [rq])
         | OtherError e \<Rightarrow> (Inl (Uncaught e), calls @ [rq])
         | Response r \<Rightarrow> (handle_response w req r, calls @ [rq]))"

text \<open>The handler, lines 51 to 116.  \<open>not api_key\<close> holds of \<open>None\<close> and of the empty string.
  It returns its result and the outbound calls made so far.\<close>

definition chat ::
  "world \<Rightarrow> ChatRequest \<Rightarrow> string option \<Rightarrow> string option \<Rightarrow> outbound_request list
     \<Rightarrow> (error + ChatResponse) \<times> outbound_request list" where
  "chat w req x_openrouter_key authorization calls =
     (case bearer_key authorization of
        Inl e \<Rightarrow> (Inl (Uncaught e), calls)
      | Inr bearer \<Rightarrow>
          (case resolve_api_key w req x_openrouter_key bearer of
             None \<Rightarrow> (Inl (HTTPException 400 (JStr missing_key_detail)), calls)
           | Some key \<Rightarrow>
               if key = []
               then (Inl (HTTPException 400 (JStr missing_key_detail)), calls)
               else call_upstream w req key calls))"

text \<open>The status the framework answers with: 200 for a returned value, the status of an
  \<open>HTTPException\<close>, 500 for any other exception.\<close>

definition http_status :: "error + 'a \<Rightarrow> int" where
  "http_status res =
     (case res of
        Inr v \<Rightarrow> 200
      | Inl (HTTPException c d) \<Rightarrow> c
      | Inl (Uncaught e) \<Rightarrow> 500)"

subsection \<open>The notions of the specification\<close>

text \<open>"First non-empty wins": the first source, in the order given, that is present and
  not the empty string.\<close>

fun spec_first_non_empty :: "string option list \<Rightarrow> string option" where
  "spec_first_non_empty [] = None"
| "spec_first_non_empty (None # ks) = spec_first_non_empty ks"
| "spec_first_non_empty (Some s # ks) = (if s = [] then spec_first_non_empty ks else Some s)"

text \<open>"Starts with case-insensitive \<open>p\<close>", letters compared as ASCII letters.\<close>

definition spec_ascii_lower :: "char \<Rightarrow> char" where
  "spec_ascii_lower c =
     (if 65 \<le> (of_char c :: nat) \<and> (of_char c :: nat) \<le> 90
      then char_of ((of_char c :: nat) + 32) else c)"

definition spec_starts_with_ci :: "string \<Rightarrow> string \<Rightarrow> bool" where
  "spec_starts_with_ci s p =
     (length p \<le> length s \<and>
      map spec_ascii_lower (take (length p) s) = map spec_ascii_lower p)"

text \<open>"Everything after the first space".\<close>

definition spec_after_first_space :: "string \<Rightarrow> string" where
  "spec_after_first_space s = tl (dropWhile (\<lambda>c. c \<noteq> CHR '' '') s)"

text \<open>The Bearer key source: the token of an \<open>Authorization\<close> header that starts with
  case-insensitive "Bearer ", trimmed.\<close>

definition spec_bearer_token :: "string option \<Rightarrow> string option" where
  "spec_bearer_token authorization =
     (case authorization of
        None \<Rightarrow> None
      | Some a \<Rightarrow>
          if spec_starts_with_ci a ''Bearer '' then Some (strip (spec_after_first_space a))
          else None)"

text \<open>The resolved key: body, environment, custom header, Bearer header, in this order.\<close>

definition spec_resolved_key ::
  "world \<Rightarrow> ChatRequest \<Rightarrow> string option \<Rightarrow> string option \<Rightarrow> string option" where
  "spec_resolved_key w req x_openrouter_key authorization =
     spec_first_non_empty
       [api_key req, environ w ''OPENROUTER_API_KEY'', x_openrouter_key,
        spec_bearer_token authorization]"

text \<open>The value at \<open>choices[0].message.content\<close> of a JSON document, when the document has
  that shape: objects are entered by key, the array by its first element.\<close>

definition spec_content :: "json \<Rightarrow> json option" where
  "spec_content data =
     (case data of
        JObj kvs \<Rightarrow>
          (case map_of kvs ''choices'' of
             Some (JArr (JObj choice # rest)) \<Rightarrow>
               (case map_of choice ''message'' of
                  Some (JObj message) \<Rightarrow> map_of message ''content''
                | _ \<Rightarrow> None)
           | _ \<Rightarrow> None)
      | _ \<Rightarrow> None)"

text \<open>The top-level \<open>model\<close> field of a JSON document.\<close>

definition spec_model_field :: "json \<Rightarrow> json option" where
  "spec_model_field data = (case data of JObj kvs \<Rightarrow> map_of kvs ''model'' | _ \<Rightarrow> None)"

text \<open>The model reported upstream, falling back to the requested one when the upstream
  body has no \<open>model\<close> field.  A response carries a model only if it is a string.\<close>

definition spec_reported_model :: "json \<Rightarrow> string \<Rightarrow> string option" where
  "spec_reported_model data requested =
     (case spec_model_field data of
        None \<Rightarrow> Some requested
      | Some (JStr m) \<Rightarrow> Some m
      | Some _ \<Rightarrow> None)"

text \<open>A shallow merge of two mappings in which the second one overwrites.\<close>

definition spec_shallow_merge ::
  "(string \<rightharpoonup> json) \<Rightarrow> (string \<times> json) list option \<Rightarrow> (string \<rightharpoonup> json)" where
  "spec_shallow_merge base ex = (case ex of None \<Rightarrow> base | Some e \<Rightarrow> base ++ map_of e)"

text \<open>The keys of a dictionary are distinct.\<close>

definition dict_keys_distinct :: "(string \<times> json) list option \<Rightarrow> bool" where
  "dict_keys_distinct ex = (case ex of None \<Rightarrow> True | Some e \<Rightarrow> distinct (map fst e))"

text \<open>A text occurs inside another one.\<close>

fun occurs_in :: "string \<Rightarrow> string \<Rightarrow> bool" where
  "occurs_in p [] = (p = [])"
| "occurs_in p (c # cs) = (take (length p) (c # cs) = p \<or> occurs_in p cs)"

subsection \<open>Concrete inputs\<close>

text \<open>A request as a client would send it, and a world given by its environment and by
  what the upstream call does.\<close>

definition example_request :: ChatRequest where
  "example_request =
     \<lparr>messages = [\<lparr>role = ''user'', content = ''Hello''\<rparr>],
      model = ''openai/gpt-4o-mini'',
      temperature = Some (7 / 10),
      top_p = Some 1,
      api_key = None,
      extra = None\<rparr>"

text \<open>The phrases of \<open>http.HTTPStatus\<close> (Python 3.12) for the client and server error
  codes, the only codes whose phrase the handler can ask for.\<close>

definition example_status_phrase :: "int \<Rightarrow> py_exception + string" where
  "example_status_phrase c =
     (case map_of
        [(400, ''Bad Request''), (401, ''Unauthorized''), (402, ''Payment Required''),
         (403, ''Forbidden''), (404, ''Not Found''), (405, ''Method Not Allowed''),
         (406, ''Not Acceptable''), (407, ''Proxy Authentication Required''),
         (408, ''Request Timeout''), (409, ''Conflict''), (410, ''Gone''),
         (411, ''Length Required''), (412, ''Precondition Failed''),
         (413, ''Request Entity Too Large''), (414, ''Request-URI Too Long''),
         (415, ''Unsupported Media Type''), (416, ''Requested Range Not Satisfiable''),
         (417, ''Expectation Failed''), (418, ''I'm a Teapot''),
         (421, ''Misdirected Request''), (422, ''Unprocessable Entity''), (423, ''Locked''),
         (424, ''Failed Dependency''), (425, ''Too Early''), (426, ''Upgrade Required''),
         (428, ''Precondition Required''), (429, ''Too Many Requests''),
         (431, ''Request Header Fields Too Large''),
         (451, ''Unavailable For Legal Reasons''),
         (500, ''Internal Server Error''), (501, ''Not Implemented''), (502, ''Bad Gateway''),
         (503, ''Service Unavailable''), (504, ''Gateway Timeout''),
         (505, ''HTTP Version Not Supported''), (506, ''Variant Also Negotiates''),
         (507, ''Insufficient Storage''), (508, ''Loop Detected''), (510, ''Not Extended''),
         (511, ''Network Authentication Required'')] c of
        None \<Rightarrow> Inl ValueError
      | Some phrase \<Rightarrow> Inr phrase)"

definition example_world :: "(string \<rightharpoonup> string) \<Rightarrow> post_result \<Rightarrow> world" where
  "example_world env res =
     \<lparr>environ = env, requests_post = (\<lambda>rq. res), status_phrase = example_status_phrase\<rparr>"

section \<open>Properties of the key sources\<close>

subsection \<open>The Bearer header\<close>

text \<open>\<open>str.lower\<close> and the lower case of ASCII agree wherever the outcome is an ASCII
  character, so \<open>authorization.lower().startswith("bearer ")\<close> is the comparison of the
  first seven characters with "Bearer " without regard to case.  It guarantees a space in
  the header, so \<open>split(" ", 1)\<close> has a second part.\<close>

lemma lower_char_ascii:
  assumes x: "(of_char x :: nat) < 128"
  shows "(lower_char c = x) = (spec_ascii_lower c = x)"
proof -
  let ?n = "of_char c :: nat"
  consider (ascii) "65 \<le> ?n \<and> ?n \<le> 90"
    | (latin) "192 \<le> ?n \<and> ?n \<le> 222 \<and> ?n \<noteq> 215"
    | (other) "\<not> (65 \<le> ?n \<and> ?n \<le> 90) \<and> \<not> (192 \<le> ?n \<and> ?n \<le> 222 \<and> ?n \<noteq> 215)"
    by blast
  then show ?thesis
  proof cases
    case ascii
    then show ?thesis by (simp add: lower_char_def spec_ascii_lower_def Let_def)
  next
    case latin
    have "(of_char (char_of (?n + 32)) :: nat) = (?n + 32) mod 256"
      by simp
    with latin have big: "(of_char (char_of (?n + 32)) :: nat) \<ge> 224" by simp
    have l: "lower_char c \<noteq> x"
    proof
      assume "lower_char c = x"
      with latin have "char_of (?n + 32) = x" by (simp add: lower_char_def Let_def)
      with big x show False by auto
    qed
    have s: "spec_ascii_lower c \<noteq> x"
    proof
      assume "spec_ascii_lower c = x"
      with latin have "c = x" by (simp add: spec_ascii_lower_def)
      with latin x show False by auto
    qed
    from l s show ?thesis by simp
  next
    case other
    then show ?thesis by (auto simp add: lower_char_def spec_ascii_lower_def Let_def)
  qed
qed

lemma map_lower_ascii:
  "\<forall>x \<in> set p. (of_char x :: nat) < 128 \<Longrightarrow> (map lower_char s = p) = (map spec_ascii_lower s = p)"
proof (induction s arbitrary: p)
  case Nil
  then show ?case by simp
next
  case (Cons c s)
  show ?case
  proof (cases p)
    case Nil
    then show ?thesis by simp
  next
    case (Cons x q)
    with Cons.prems have x: "(of_char x :: nat) < 128" and q: "\<forall>y \<in> set q. (of_char y :: nat) < 128"
      by simp_all
    show ?thesis
      unfolding Cons using lower_char_ascii[OF x, of c] Cons.IH[OF q] by simp
  qed
qed



lemma startswith_lower_ci:
  assumes ascii: "\<forall>x \<in> set p. (of_char x :: nat) < 128"
    and low: "map spec_ascii_lower q = p"
    and ne: "p \<noteq> []"
  shows "(a \<noteq> [] \<and> startswith (lower a) p) = spec_starts_with_ci a q"
proof -
  have lenq: "length q = length p"
    using arg_cong[OF low, of length] by simp
  have eq: "startswith (lower a) p = (map spec_ascii_lower (take (length p) a) = p)"
    using map_lower_ascii[OF ascii, of "take (length p) a"]
    by (simp add: startswith_def lower_def take_map)
  have len: "length p \<le> length a" if h: "map spec_ascii_lower (take (length p) a) = p"
  proof -
    have "length (map spec_ascii_lower (take (length p) a)) = length p"
      by (simp only: h)
    then show ?thesis by simp
  qed
  have nonempty: "a \<noteq> []" if "length p \<le> length a"
    using that ne by auto
  show ?thesis
    unfolding eq spec_starts_with_ci_def lenq low using len nonempty by blast
qed

lemma startswith_lower_bearer:
  "(a \<noteq> [] \<and> startswith (lower a) ''bearer '') = spec_starts_with_ci a ''Bearer ''"
  by (rule startswith_lower_ci) (simp_all add: spec_ascii_lower_def char_of_eq_iff)

lemma split_first:
  "sep \<in> set s \<Longrightarrow>
   split sep (Suc 0) s = [takeWhile (\<lambda>c. c \<noteq> sep) s, tl (dropWhile (\<lambda>c. c \<noteq> sep) s)]"
  by (induction s) auto

lemma spec_ascii_lower_space: "spec_ascii_lower c = CHR '' '' \<Longrightarrow> c = CHR '' ''"
proof -
  assume h: "spec_ascii_lower c = CHR '' ''"
  show ?thesis
  proof (cases "65 \<le> (of_char c :: nat) \<and> (of_char c :: nat) \<le> 90")
    case True
    with h have "char_of ((of_char c :: nat) + 32) = CHR '' ''"
      by (simp add: spec_ascii_lower_def)
    then have "(of_char (char_of ((of_char c :: nat) + 32)) :: nat) = of_char CHR '' ''"
      by (simp only:)
    then have "((of_char c :: nat) + 32) mod 256 = 32"
      by simp
    with True show ?thesis by simp
  next
    case False
    with h show ?thesis by (simp add: spec_ascii_lower_def)
  qed
qed

lemma ci_prefix_has_space:
  assumes "spec_starts_with_ci a ''Bearer ''"
  shows "CHR '' '' \<in> set a"
proof -
  define t where "t = take (length ''Bearer '') a"
  from assms have "map spec_ascii_lower t = map spec_ascii_lower ''Bearer ''"
    by (simp only: spec_starts_with_ci_def t_def)
  then have "set (map spec_ascii_lower t) = set (map spec_ascii_lower ''Bearer '')"
    by (simp only:)
  then have "spec_ascii_lower ` set t = spec_ascii_lower ` set ''Bearer ''"
    by (simp only: set_map)
  moreover have "spec_ascii_lower CHR '' '' = CHR '' ''"
    by (simp add: spec_ascii_lower_def)
  ultimately have "CHR '' '' \<in> spec_ascii_lower ` set t"
    by simp
  then obtain c where c: "c \<in> set t" "spec_ascii_lower c = CHR '' ''"
    by auto
  from c(2) have "c = CHR '' ''" by (rule spec_ascii_lower_space)
  with c(1) show ?thesis
    unfolding t_def by (auto dest: in_set_takeD)
qed

lemma bearer_key_spec: "bearer_key authorization = Inr (spec_bearer_token authorization)"
proof (cases authorization)
  case None
  then show ?thesis by (simp add: bearer_key_def spec_bearer_token_def)
next
  case (Some a)
  show ?thesis
  proof (cases "spec_starts_with_ci a ''Bearer ''")
    case True
    then have guard: "a \<noteq> [] \<and> startswith (lower a) ''bearer ''"
      using startswith_lower_bearer[of a] by blast
    have "split CHR '' '' 1 a =
        [takeWhile (\<lambda>c. c \<noteq> CHR '' '') a, spec_after_first_space a]"
      using split_first[OF ci_prefix_has_space[OF True]]
      by (simp add: spec_after_first_space_def)
    then have "getitem (split CHR '' '' 1 a) 1 = Inr (spec_after_first_space a)"
      by (simp add: getitem_def)
    with guard True Some show ?thesis
      by (simp add: bearer_key_def spec_bearer_token_def)
  next
    case False
    then have "\<not> (a \<noteq> [] \<and> startswith (lower a) ''bearer '')"
      using startswith_lower_bearer[of a] by blast
    with False Some show ?thesis
      by (auto simp add: bearer_key_def spec_bearer_token_def)
  qed
qed

subsection \<open>Trimming\<close>

text \<open>\<open>strip\<close> removes whitespace at both ends and nothing else: what it cuts off is
  whitespace, and what it leaves neither starts nor ends with whitespace.\<close>

lemma strip_decomp:
  "dropWhile isspace s = strip s @ rev (takeWhile isspace (rev (dropWhile isspace s)))"
proof -
  define d where "d = dropWhile isspace s"
  have "rev d = takeWhile isspace (rev d) @ dropWhile isspace (rev d)"
    by simp
  then have "rev (rev d) = rev (takeWhile isspace (rev d) @ dropWhile isspace (rev d))"
    by (rule arg_cong)
  then have "d = rev (dropWhile isspace (rev d)) @ rev (takeWhile isspace (rev d))"
    by (simp only: rev_rev_ident rev_append)
  then show ?thesis
    by (simp only: strip_def d_def)
qed

lemma strip_surrounded:
  "\<exists>l r. s = l @ strip s @ r \<and> (\<forall>c \<in> set l. isspace c) \<and> (\<forall>c \<in> set r. isspace c)"
proof (intro exI conjI)
  show "s = takeWhile isspace s @ strip s @ rev (takeWhile isspace (rev (dropWhile isspace s)))"
    using strip_decomp[of s] takeWhile_dropWhile_id[of isspace s] by (simp only:)
  show "\<forall>c \<in> set (takeWhile isspace s). isspace c"
    by (auto dest: set_takeWhileD)
  show "\<forall>c \<in> set (rev (takeWhile isspace (rev (dropWhile isspace s)))). isspace c"
    by (auto dest: set_takeWhileD)
qed

lemma strip_no_leading:
  assumes ne: "strip s \<noteq> []"
  shows "\<not> isspace (hd (strip s))"
proof -
  define d where "d = dropWhile isspace s"
  have sd: "strip s = rev (dropWhile isspace (rev d))"
    by (simp only: strip_def d_def)
  have "d \<noteq> []"
  proof
    assume "d = []"
    with sd have "strip s = []" by simp
    with ne show False by simp
  qed
  then have h: "\<not> isspace (hd d)" unfolding d_def by (rule hd_dropWhile)
  have "hd d = hd (strip s)"
    using strip_decomp[of s] ne unfolding d_def by (metis hd_append2)
  with h show ?thesis by simp
qed

lemma strip_no_trailing:
  assumes ne: "strip s \<noteq> []"
  shows "\<not> isspace (last (strip s))"
proof -
  define e where "e = dropWhile isspace (rev (dropWhile isspace s))"
  have se: "strip s = rev e"
    by (simp only: strip_def e_def)
  with ne have e: "e \<noteq> []" by auto
  then have "\<not> isspace (hd e)" unfolding e_def by (rule hd_dropWhile)
  moreover have "last (strip s) = hd e" using e se by (simp add: last_rev)
  ultimately show ?thesis by simp
qed

subsection \<open>Precedence of the key sources\<close>

lemma spec_first_non_empty_truthy:
  "spec_first_non_empty ks = Some k \<Longrightarrow> k \<noteq> []"
  by (induction ks rule: spec_first_non_empty.induct) (auto split: if_splits)

lemma py_or_chain:
  "(case spec_first_non_empty [a, b, c, d] of
      None \<Rightarrow> \<not> truthy (py_or (py_or (py_or a b) c) d)
    | Some k \<Rightarrow> py_or (py_or (py_or a b) c) d = Some k)"
  by (cases a; cases b; cases c; cases d) (simp_all add: py_or_def)

lemma resolve_api_key_spec:
  "(case spec_resolved_key w req xk auth of
      None \<Rightarrow> \<not> truthy (resolve_api_key w req xk (spec_bearer_token auth))
    | Some k \<Rightarrow> resolve_api_key w req xk (spec_bearer_token auth) = Some k)"
  unfolding spec_resolved_key_def resolve_api_key_def getenv_def by (rule py_or_chain)

lemma chat_unresolved:
  assumes "spec_resolved_key w req xk auth = None"
  shows "chat w req xk auth calls = (Inl (HTTPException 400 (JStr missing_key_detail)), calls)"
proof -
  from assms resolve_api_key_spec[of w req xk auth]
  have "\<not> truthy (resolve_api_key w req xk (spec_bearer_token auth))" by simp
  then show ?thesis
    by (cases "resolve_api_key w req xk (spec_bearer_token auth)")
       (simp_all add: chat_def bearer_key_spec)
qed

lemma chat_resolved:
  assumes "spec_resolved_key w req xk auth = Some key"
  shows "chat w req xk auth calls = call_upstream w req key calls"
proof -
  from assms resolve_api_key_spec[of w req xk auth]
  have "resolve_api_key w req xk (spec_bearer_token auth) = Some key" by simp
  moreover from assms have "key \<noteq> []"
    unfolding spec_resolved_key_def by (rule spec_first_non_empty_truthy)
  ultimately show ?thesis
    by (simp add: chat_def bearer_key_spec)
qed

lemma call_upstream_calls: "snd (call_upstream w req key calls) = calls @ [build_request w req key]"
  by (simp add: call_upstream_def Let_def split: post_result.splits)

subsection \<open>Evaluating characters\<close>

lemma eq_char_of_iff: "(c = char_of n) = (take_bit 8 n = of_char c)"
  using char_of_eq_iff[of n c] by auto

lemmas eval_strings = spec_starts_with_ci_def spec_ascii_lower_def char_of_eq_iff eq_char_of_iff
  strip_def isspace_def spec_after_first_space_def

lemmas example_defs = example_request_def example_world_def

section \<open>The health check\<close>

text \<open>
  C9.  \<open>GET /test\<close> returns the JSON object \<open>{"status": "ok"}\<close> with status 200, whatever the
  environment and the upstream are, and makes no outbound call: the calls made so far are
  returned unchanged.  The handler takes no credentials.
\<close>

theorem test_ok:
  "test w calls = (Inr (JObj [(''status'', JStr ''ok'')]), calls) \<and>
   http_status (fst (test w calls)) = 200"
  by (simp add: test_def http_status_def)

theorem test_ok_witness:
  "test (example_world Map.empty (RequestException ''unreachable'')) [] =
     (Inr (JObj [(''status'', JStr ''ok'')]), []) \<and>
   http_status (fst (test (example_world Map.empty (RequestException ''unreachable'')) [])) = 200"
  by (rule test_ok)

section \<open>The Bearer key source\<close>

text \<open>
  C8.  For every value of the \<open>Authorization\<close> header, the Bearer key source yields a token
  exactly when the value starts with "Bearer " compared without regard to case; the token
  is everything after the first space, trimmed of surrounding whitespace.  A missing header
  and a header that does not start so yield no key.  Computing the source never raises.
\<close>

theorem bearer_key_token:
  "bearer_key authorization =
     Inr (case authorization of
            None \<Rightarrow> None
          | Some a \<Rightarrow>
              if spec_starts_with_ci a ''Bearer ''
              then Some (strip (spec_after_first_space a))
              else None)"
  by (simp add: bearer_key_spec spec_bearer_token_def)

theorem bearer_key_token_witness:
  "bearer_key (Some ''bEaReR  sk-or 123  '') = Inr (Some ''sk-or 123'') \<and>
   bearer_key (Some ''Basic sk-or'') = Inr None \<and>
   bearer_key (Some ''Bearer'') = Inr None"
  using bearer_key_token[of "Some ''bEaReR  sk-or 123  ''"]
    bearer_key_token[of "Some ''Basic sk-or''"] bearer_key_token[of "Some ''Bearer''"]
  by (simp add: eval_strings)

section \<open>Key resolution\<close>

text \<open>The message of the 400 answer names each of the four ways to pass a key.\<close>

lemma missing_key_detail_mentions:
  "occurs_in ''api_key'' missing_key_detail \<and>
   occurs_in ''OPENROUTER_API_KEY'' missing_key_detail \<and>
   occurs_in ''x-openrouter-key'' missing_key_detail \<and>
   occurs_in ''Authorization: Bearer'' missing_key_detail"
  by (simp add: missing_key_detail_def)

lemma build_request_authorization:
  "map_of (headers (build_request w req key)) ''Authorization'' = Some (''Bearer '' @ key)"
  by (simp add: build_request_def)

text \<open>
  C1.  For every \<open>POST /chat\<close> request the handler resolves the API key as the first
  non-empty value among, in this order, the \<open>api_key\<close> field of the body, the environment
  variable \<open>OPENROUTER_API_KEY\<close>, the \<open>x-openrouter-key\<close> header and the Bearer token of the
  \<open>Authorization\<close> header.  An absent or empty source is skipped.  With the key so resolved
  the handler goes on to the upstream call, whose \<open>Authorization\<close> header carries it; with
  no such key it answers 400 and makes no call.
\<close>

theorem chat_key_precedence:
  "(case spec_first_non_empty
           [api_key req, getenv w ''OPENROUTER_API_KEY'', x_openrouter_key,
            spec_bearer_token authorization] of
      None \<Rightarrow>
        chat w req x_openrouter_key authorization calls =
          (Inl (HTTPException 400 (JStr missing_key_detail)), calls)
    | Some key \<Rightarrow>
        chat w req x_openrouter_key authorization calls = call_upstream w req key calls \<and>
        snd (chat w req x_openrouter_key authorization calls) = calls @ [build_request w req key] \<and>
        map_of (headers (build_request w req key)) ''Authorization'' = Some (''Bearer '' @ key))"
proof (cases "spec_resolved_key w req x_openrouter_key authorization")
  case None
  then show ?thesis
    using chat_unresolved[OF None] by (simp add: spec_resolved_key_def getenv_def)
next
  case (Some key)
  then show ?thesis
    using chat_resolved[OF Some] call_upstream_calls[of w req key calls]
      build_request_authorization[of w req key]
    by (simp add: spec_resolved_key_def getenv_def)
qed

theorem chat_key_precedence_witness:
  "chat (example_world [''OPENROUTER_API_KEY'' \<mapsto> ''''] (RequestException ''down''))
        (example_request\<lparr>api_key := Some ''''\<rparr>) (Some ''sk-header'') (Some ''Bearer sk-bearer'') []
   = call_upstream (example_world [''OPENROUTER_API_KEY'' \<mapsto> ''''] (RequestException ''down''))
        (example_request\<lparr>api_key := Some ''''\<rparr>) ''sk-header'' [] \<and>
   chat (example_world Map.empty (RequestException ''down''))
        example_request None (Some ''Bearer sk-bearer'') []
   = call_upstream (example_world Map.empty (RequestException ''down''))
        example_request ''sk-bearer'' [] \<and>
   chat (example_world [''OPENROUTER_API_KEY'' \<mapsto> ''sk-env''] (RequestException ''down''))
        (example_request\<lparr>api_key := Some ''sk-body''\<rparr>) (Some ''sk-header'') (Some ''Bearer sk-bearer'') []
   = call_upstream (example_world [''OPENROUTER_API_KEY'' \<mapsto> ''sk-env''] (RequestException ''down''))
        (example_request\<lparr>api_key := Some ''sk-body''\<rparr>) ''sk-body'' []"
  using
    chat_key_precedence[where req = "example_request\<lparr>api_key := Some ''''\<rparr>"
      and w = "example_world [''OPENROUTER_API_KEY'' \<mapsto> ''''] (RequestException ''down'')"
      and x_openrouter_key = "Some ''sk-header''" and authorization = "Some ''Bearer sk-bearer''"
      and calls = "[]"]
    chat_key_precedence[where req = example_request
      and w = "example_world Map.empty (RequestException ''down'')"
      and x_openrouter_key = None and authorization = "Some ''Bearer sk-bearer''"
      and calls = "[]"]
    chat_key_precedence[where req = "example_request\<lparr>api_key := Some ''sk-body''\<rparr>"
      and w = "example_world [''OPENROUTER_API_KEY'' \<mapsto> ''sk-env''] (RequestException ''down'')"
      and x_openrouter_key = "Some ''sk-header''" and authorization = "Some ''Bearer sk-bearer''"
      and calls = "[]"]
  by (simp add: example_defs getenv_def spec_bearer_token_def eval_strings)

text \<open>
  C3.  When all four key sources are absent or empty, the handler fails with status 400, its
  message names the four ways to pass a key, and no outbound call is made: the calls made
  so far are returned unchanged.
\<close>

theorem chat_missing_key:
  assumes "\<not> truthy (api_key req)"
    and "\<not> truthy (getenv w ''OPENROUTER_API_KEY'')"
    and "\<not> truthy x_openrouter_key"
    and "\<not> truthy (spec_bearer_token authorization)"
  shows "chat w req x_openrouter_key authorization calls =
           (Inl (HTTPException 400 (JStr missing_key_detail)), calls) \<and>
         http_status (fst (chat w req x_openrouter_key authorization calls)) = 400 \<and>
         occurs_in ''api_key'' missing_key_detail \<and>
         occurs_in ''OPENROUTER_API_KEY'' missing_key_detail \<and>
         occurs_in ''x-openrouter-key'' missing_key_detail \<and>
         occurs_in ''Authorization: Bearer'' missing_key_detail"
proof -
  have none: "spec_first_non_empty [a, b, c, d] = None"
    if "\<not> truthy a" "\<not> truthy b" "\<not> truthy c" "\<not> truthy d" for a b c d
    using that by (cases a; cases b; cases c; cases d) simp_all
  have "spec_resolved_key w req x_openrouter_key authorization = None"
    unfolding spec_resolved_key_def using assms by (intro none) (simp_all add: getenv_def)
  then have "chat w req x_openrouter_key authorization calls =
      (Inl (HTTPException 400 (JStr missing_key_detail)), calls)"
    by (rule chat_unresolved)
  then show ?thesis
    using missing_key_detail_mentions by (simp add: http_status_def)
qed

theorem chat_missing_key_witness:
  "\<not> truthy (api_key (example_request\<lparr>api_key := Some ''''\<rparr>)) \<and>
   \<not> truthy (getenv (example_world Map.empty (RequestException ''down'')) ''OPENROUTER_API_KEY'') \<and>
   \<not> truthy (Some '''') \<and>
   \<not> truthy (spec_bearer_token (Some ''Basic dXNlcjpwdw=='')) \<and>
   chat (example_world Map.empty (RequestException ''down''))
     (example_request\<lparr>api_key := Some ''''\<rparr>) (Some '''') (Some ''Basic dXNlcjpwdw=='') [] =
     (Inl (HTTPException 400 (JStr missing_key_detail)), [])"
proof -
  have h1: "\<not> truthy (api_key (example_request\<lparr>api_key := Some ''''\<rparr>))" by simp
  have h2: "\<not> truthy (getenv (example_world Map.empty (RequestException ''down'')) ''OPENROUTER_API_KEY'')"
    by (simp add: getenv_def example_defs)
  have h3: "\<not> truthy (Some '''')" by simp
  have h4: "\<not> truthy (spec_bearer_token (Some ''Basic dXNlcjpwdw==''))"
    by (simp add: spec_bearer_token_def eval_strings)
  from chat_missing_key[OF h1 h2 h3 h4, where calls = "[]"] h1 h2 h3 h4 show ?thesis by blast
qed

section \<open>The upstream call and its failures\<close>

lemma call_upstream_response:
  "requests_post w (build_request w req key) = Response r \<Longrightarrow>
   call_upstream w req key calls = (handle_response w req r, calls @ [build_request w req key])"
  by (simp add: call_upstream_def Let_def)

text \<open>
  C6.  When the upstream call raises a transport-level error (a \<open>requests.RequestException\<close>:
  connection error, timeout, DNS failure), the handler fails with status 502; the message
  is "Upstream request failed: " followed by the text of the error.  The call is not
  retried: exactly one outbound call is added to the calls made so far.
\<close>

theorem chat_transport_error:
  assumes "spec_resolved_key w req x_openrouter_key authorization = Some key"
    and "requests_post w (build_request w req key) = RequestException e"
  shows "chat w req x_openrouter_key authorization calls =
           (Inl (HTTPException 502 (JStr (''Upstream request failed: '' @ e))),
            calls @ [build_request w req key]) \<and>
         http_status (fst (chat w req x_openrouter_key authorization calls)) = 502"
  using assms(2) by (simp add: chat_resolved[OF assms(1)] call_upstream_def Let_def http_status_def)

theorem chat_transport_error_witness:
  "spec_resolved_key (example_world Map.empty (RequestException ''Connection refused''))
     example_request (Some ''sk-header'') None = Some ''sk-header'' \<and>
   requests_post (example_world Map.empty (RequestException ''Connection refused''))
     (build_request (example_world Map.empty (RequestException ''Connection refused''))
        example_request ''sk-header'') = RequestException ''Connection refused'' \<and>
   chat (example_world Map.empty (RequestException ''Connection refused''))
     example_request (Some ''sk-header'') None [] =
     (Inl (HTTPException 502 (JStr ''Upstream request failed: Connection refused'')),
      [build_request (example_world Map.empty (RequestException ''Connection refused''))
         example_request ''sk-header''])"
proof -
  let ?w = "example_world Map.empty (RequestException ''Connection refused'')"
  have h1: "spec_resolved_key ?w example_request (Some ''sk-header'') None = Some ''sk-header''"
    by (simp add: spec_resolved_key_def spec_bearer_token_def example_defs)
  have h2: "requests_post ?w (build_request ?w example_request ''sk-header'') =
      RequestException ''Connection refused''"
    by (simp add: example_world_def)
  from chat_transport_error[OF h1 h2, where calls = "[]"] h1 h2 show ?thesis by simp
qed

text \<open>
  C4, as amended.  When the upstream answers with a status of 400 or more and a body that
  is not the JSON value \<open>null\<close>, the handler fails with that same status; the detail is the
  upstream body parsed as JSON, or the object \<open>{"error": <raw response text>}\<close> when the
  body is not JSON.  A 429 with the body \<open>{"error": "rate limited"}\<close> comes back as 429 with
  that body as detail.
\<close>

theorem chat_upstream_error:
  assumes "spec_resolved_key w req x_openrouter_key authorization = Some key"
    and "requests_post w (build_request w req key) = Response r"
    and "400 \<le> status_code r"
    and "resp_json r \<noteq> Some JNull"
  shows "fst (chat w req x_openrouter_key authorization calls) =
           Inl (HTTPException (status_code r)
                  (case resp_json r of
                     Some data \<Rightarrow> data
                   | None \<Rightarrow> JObj [(''error'', JStr (resp_text r))])) \<and>
         http_status (fst (chat w req x_openrouter_key authorization calls)) = status_code r"
proof -
  have "HTTPException_init w (status_code r)
      (case resp_json r of Some data \<Rightarrow> data | None \<Rightarrow> JObj [(''error'', JStr (resp_text r))]) =
    HTTPException (status_code r)
      (case resp_json r of Some data \<Rightarrow> data | None \<Rightarrow> JObj [(''error'', JStr (resp_text r))])"
    using assms(4) by (cases "resp_json r") (simp_all add: HTTPException_init_def)
  with assms(3) show ?thesis
    by (simp add: chat_resolved[OF assms(1)] call_upstream_response[OF assms(2)]
        handle_response_def http_status_def)
qed

theorem chat_upstream_error_witness:
  \<open>spec_resolved_key
     (example_world Map.empty
        (Response \<lparr>status_code = 429, resp_text = ''{"error": "rate limited"}'',
           resp_json = Some (JObj [(''error'', JStr ''rate limited'')])\<rparr>))
     example_request (Some ''sk-header'') None = Some ''sk-header'' \<and>
   fst (chat
     (example_world Map.empty
        (Response \<lparr>status_code = 429, resp_text = ''{"error": "rate limited"}'',
           resp_json = Some (JObj [(''error'', JStr ''rate limited'')])\<rparr>))
     example_request (Some ''sk-header'') None []) =
     Inl (HTTPException 429 (JObj [(''error'', JStr ''rate limited'')])) \<and>
   fst (chat
     (example_world Map.empty
        (Response \<lparr>status_code = 503, resp_text = ''Service Unavailable'', resp_json = None\<rparr>))
     example_request (Some ''sk-header'') None []) =
     Inl (HTTPException 503 (JObj [(''error'', JStr ''Service Unavailable'')]))\<close>
proof -
  let ?r = \<open>\<lparr>status_code = 429, resp_text = ''{"error": "rate limited"}'',
           resp_json = Some (JObj [(''error'', JStr ''rate limited'')])\<rparr>\<close>
  let ?r' = "\<lparr>status_code = 503, resp_text = ''Service Unavailable'', resp_json = None\<rparr>"
  have h1: "spec_resolved_key (example_world Map.empty res) example_request
      (Some ''sk-header'') None = Some ''sk-header''" for res
    by (simp add: spec_resolved_key_def spec_bearer_token_def example_defs)
  have h2: "requests_post (example_world Map.empty (Response r))
      (build_request (example_world Map.empty (Response r)) example_request ''sk-header'') =
      Response r" for r
    by (simp add: example_world_def)
  have a: "400 \<le> status_code ?r" by simp
  have b: "400 \<le> status_code ?r'" by simp
  have n: "resp_json ?r \<noteq> Some JNull" by simp
  have n': "resp_json ?r' \<noteq> Some JNull" by simp
  from chat_upstream_error[OF h1 h2 a n, where calls = "[]"]
    chat_upstream_error[OF h1 h2 b n', where calls = "[]"] h1
  show ?thesis by simp
qed

text \<open>
  The claim as first stated covers every body.  For the body \<open>null\<close> the parsed JSON is
  \<open>None\<close>, and an \<open>HTTPException\<close> built with the detail \<open>None\<close> carries the phrase of the
  status code instead: a 429 with the body \<open>null\<close> comes back with the detail
  "Too Many Requests".
\<close>

theorem chat_upstream_error_counterexample:
  "spec_resolved_key
     (example_world Map.empty
        (Response \<lparr>status_code = 429, resp_text = ''null'', resp_json = Some JNull\<rparr>))
     example_request (Some ''sk-header'') None = Some ''sk-header'' \<and>
   fst (chat
     (example_world Map.empty
        (Response \<lparr>status_code = 429, resp_text = ''null'', resp_json = Some JNull\<rparr>))
     example_request (Some ''sk-header'') None []) =
     Inl (HTTPException 429 (JStr ''Too Many Requests'')) \<and>
   fst (chat
     (example_world Map.empty
        (Response \<lparr>status_code = 429, resp_text = ''null'', resp_json = Some JNull\<rparr>))
     example_request (Some ''sk-header'') None []) \<noteq>
     Inl (HTTPException 429 JNull)"
  by (simp add: chat_def bearer_key_def resolve_api_key_def py_or_def getenv_def
      call_upstream_def handle_response_def HTTPException_init_def
      spec_resolved_key_def spec_bearer_token_def example_defs example_status_phrase_def)

text \<open>
  C10.  When the upstream answers with a status below 400 and a body that is not JSON, the
  handler raises the JSON decoding exception uncaught: the body is parsed outside the
  \<open>try\<close> block that turns malformed answers into the 500 "unexpected response format"
  error, so what leaves the handler is no \<open>HTTPException\<close> at all.
\<close>

theorem chat_non_json_success_body:
  assumes "spec_resolved_key w req x_openrouter_key authorization = Some key"
    and "requests_post w (build_request w req key) = Response r"
    and "status_code r < 400"
    and "resp_json r = None"
  shows "fst (chat w req x_openrouter_key authorization calls) = Inl (Uncaught JSONDecodeError) \<and>
         (\<forall>c d. fst (chat w req x_openrouter_key authorization calls) \<noteq>
            Inl (HTTPException c d)) \<and>
         snd (chat w req x_openrouter_key authorization calls) =
           calls @ [build_request w req key]"
  using assms(3,4)
  by (simp add: chat_resolved[OF assms(1)] call_upstream_response[OF assms(2)]
      handle_response_def)

theorem chat_non_json_success_body_witness:
  "spec_resolved_key
     (example_world Map.empty
        (Response \<lparr>status_code = 200, resp_text = ''<html>ok</html>'', resp_json = None\<rparr>))
     example_request (Some ''sk-header'') None = Some ''sk-header'' \<and>
   fst (chat
     (example_world Map.empty
        (Response \<lparr>status_code = 200, resp_text = ''<html>ok</html>'', resp_json = None\<rparr>))
     example_request (Some ''sk-header'') None []) = Inl (Uncaught JSONDecodeError)"
proof -
  let ?r = "\<lparr>status_code = 200, resp_text = ''<html>ok</html>'', resp_json = None\<rparr>"
  have h1: "spec_resolved_key (example_world Map.empty (Response ?r)) example_request
      (Some ''sk-header'') None = Some ''sk-header''"
    by (simp add: spec_resolved_key_def spec_bearer_token_def example_defs)
  have h2: "requests_post (example_world Map.empty (Response ?r))
      (build_request (example_world Map.empty (Response ?r)) example_request ''sk-header'') =
      Response ?r"
    by (simp add: example_world_def)
  have a: "status_code ?r < 400" by simp
  have b: "resp_json ?r = None" by simp
  from chat_non_json_success_body[OF h1 h2 a b, where calls = "[]"] h1
  show ?thesis by simp
qed

section \<open>Reading the upstream answer\<close>

text \<open>Python's subscripting reaches \<open>choices[0].message.content\<close> exactly when the JSON
  document has that shape: every other document makes one of the subscripts raise.\<close>

lemma getitem_key_Inr:
  "(getitem_key v k = Inr x) = (\<exists>kvs. v = JObj kvs \<and> map_of kvs k = Some x)"
  by (cases v) (auto split: option.splits)

lemma getitem_0_Inr_JObj:
  "(getitem_0 v = Inr (JObj kvs)) = (\<exists>rest. v = JArr (JObj kvs # rest))"
  by (cases v) (auto simp: getitem_def neq_Nil_conv split: sum.splits)

lemma extract_reply_fails:
  assumes "spec_content data = None"
  shows "\<exists>e. extract_reply req data = Inl e"
proof (rule ccontr)
  assume "\<not> (\<exists>e. extract_reply req data = Inl e)"
  then obtain res where res: "extract_reply req data = Inr res"
    by (cases "extract_reply req data") auto
  from res obtain choices choice message c where
    1: "getitem_key data ''choices'' = Inr choices" and
    2: "getitem_0 choices = Inr choice" and
    3: "getitem_key choice ''message'' = Inr message" and
    4: "getitem_key message ''content'' = Inr c"
    by (auto simp: extract_reply_def split: sum.splits)
  from 4 obtain mkvs where m: "message = JObj mkvs" "map_of mkvs ''content'' = Some c"
    by (auto simp: getitem_key_Inr)
  from 3 obtain ckvs where ch: "choice = JObj ckvs" "map_of ckvs ''message'' = Some message"
    by (auto simp: getitem_key_Inr)
  from 2 ch(1) obtain rest where cs: "choices = JArr (JObj ckvs # rest)"
    by (auto simp: getitem_0_Inr_JObj)
  from 1 obtain kvs where d: "data = JObj kvs" "map_of kvs ''choices'' = Some choices"
    by (auto simp: getitem_key_Inr)
  from d cs ch m have "spec_content data = Some c"
    by (simp add: spec_content_def)
  with assms show False by simp
qed

lemma spec_content_Some:
  assumes "spec_content data = Some c"
  obtains kvs ckvs rest mkvs where "data = JObj kvs"
    and "map_of kvs ''choices'' = Some (JArr (JObj ckvs # rest))"
    and "map_of ckvs ''message'' = Some (JObj mkvs)"
    and "map_of mkvs ''content'' = Some c"
  using assms
  by (auto simp: spec_content_def split: json.splits option.splits list.splits)

lemma extract_reply_ok:
  assumes "spec_content data = Some (JStr c)"
  shows "extract_reply req data =
    Inr (strip c, case spec_model_field data of None \<Rightarrow> JStr (model req) | Some v \<Rightarrow> v)"
proof -
  from assms obtain kvs ckvs rest mkvs where "data = JObj kvs"
    and "map_of kvs ''choices'' = Some (JArr (JObj ckvs # rest))"
    and "map_of ckvs ''message'' = Some (JObj mkvs)"
    and "map_of mkvs ''content'' = Some (JStr c)"
    by (rule spec_content_Some)
  then show ?thesis
    by (simp add: extract_reply_def getitem_def spec_model_field_def)
qed

text \<open>
  C5.  When the upstream answers with a status below 400 and a JSON body that lacks the
  shape \<open>choices[0].message.content\<close> (no \<open>choices\<close> key, for one), the handler fails with
  status 500 and the message "Unexpected response format from OpenRouter".
\<close>

theorem chat_malformed_response:
  assumes "spec_resolved_key w req x_openrouter_key authorization = Some key"
    and "requests_post w (build_request w req key) = Response r"
    and "status_code r < 400"
    and "resp_json r = Some data"
    and "spec_content data = None"
  shows "fst (chat w req x_openrouter_key authorization calls) =
           Inl (HTTPException 500 (JStr ''Unexpected response format from OpenRouter'')) \<and>
         http_status (fst (chat w req x_openrouter_key authorization calls)) = 500"
proof -
  from extract_reply_fails[OF assms(5)] obtain e where "extract_reply req data = Inl e"
    by blast
  with assms(3,4) show ?thesis
    by (simp add: chat_resolved[OF assms(1)] call_upstream_response[OF assms(2)]
        handle_response_def http_status_def)
qed

theorem chat_malformed_response_witness:
  \<open>spec_resolved_key
     (example_world Map.empty
        (Response \<lparr>status_code = 200, resp_text = ''{"id": "gen-1"}'',
           resp_json = Some (JObj [(''id'', JStr ''gen-1'')])\<rparr>))
     example_request (Some ''sk-header'') None = Some ''sk-header'' \<and>
   spec_content (JObj [(''id'', JStr ''gen-1'')]) = None \<and>
   spec_content (JObj [(''choices'', JStr ''none'')]) = None \<and>
   fst (chat
     (example_world Map.empty
        (Response \<lparr>status_code = 200, resp_text = ''{"id": "gen-1"}'',
           resp_json = Some (JObj [(''id'', JStr ''gen-1'')])\<rparr>))
     example_request (Some ''sk-header'') None []) =
     Inl (HTTPException 500 (JStr ''Unexpected response format from OpenRouter'')) \<and>
   fst (chat
     (example_world Map.empty
        (Response \<lparr>status_code = 200, resp_text = ''{"choices": "none"}'',
           resp_json = Some (JObj [(''choices'', JStr ''none'')])\<rparr>))
     example_request (Some ''sk-header'') None []) =
     Inl (HTTPException 500 (JStr ''Unexpected response format from OpenRouter''))\<close>
proof -
  let ?r = \<open>\<lparr>status_code = 200, resp_text = ''{"id": "gen-1"}'',
           resp_json = Some (JObj [(''id'', JStr ''gen-1'')])\<rparr>\<close>
  let ?r' = \<open>\<lparr>status_code = 200, resp_text = ''{"choices": "none"}'',
           resp_json = Some (JObj [(''choices'', JStr ''none'')])\<rparr>\<close>
  have h1: \<open>spec_resolved_key (example_world Map.empty res) example_request
      (Some ''sk-header'') None = Some ''sk-header''\<close> for res
    by (simp add: spec_resolved_key_def spec_bearer_token_def example_defs)
  have h2: \<open>requests_post (example_world Map.empty (Response r))
      (build_request (example_world Map.empty (Response r)) example_request ''sk-header'') =
      Response r\<close> for r
    by (simp add: example_world_def)
  have a: \<open>status_code ?r < 400\<close> and a': \<open>status_code ?r' < 400\<close> by simp_all
  have b: \<open>resp_json ?r = Some (JObj [(''id'', JStr ''gen-1'')])\<close>
    and b': \<open>resp_json ?r' = Some (JObj [(''choices'', JStr ''none'')])\<close> by simp_all
  have c: \<open>spec_content (JObj [(''id'', JStr ''gen-1'')]) = None\<close>
    and c': \<open>spec_content (JObj [(''choices'', JStr ''none'')]) = None\<close>
    by (simp_all add: spec_content_def)
  from chat_malformed_response[OF h1 h2 a b c, where calls = \<open>[]\<close>]
    chat_malformed_response[OF h1 h2 a' b' c', where calls = \<open>[]\<close>] h1 c c'
  show ?thesis by simp
qed

text \<open>
  C2, as amended.  For a request with a resolvable key, when the upstream answers with a
  status below 400 and a JSON body whose \<open>choices[0].message.content\<close> is a string, and
  whose top-level \<open>model\<close> field is a string or absent, the handler returns a \<open>ChatResponse\<close>
  with status 200: its \<open>reply\<close> is that content trimmed of leading and trailing whitespace,
  its \<open>model\<close> is the upstream \<open>model\<close> field when present and the model of the request
  otherwise.
\<close>

theorem chat_success:
  assumes "spec_resolved_key w req x_openrouter_key authorization = Some key"
    and "requests_post w (build_request w req key) = Response r"
    and "status_code r < 400"
    and "resp_json r = Some data"
    and "spec_content data = Some (JStr c)"
    and "spec_reported_model data (model req) = Some m"
  shows "fst (chat w req x_openrouter_key authorization calls) =
           Inr \<lparr>reply = strip c, model' = m\<rparr> \<and>
         http_status (fst (chat w req x_openrouter_key authorization calls)) = 200"
proof -
  have "ChatResponse_init (strip c)
      (case spec_model_field data of None \<Rightarrow> JStr (model req) | Some v \<Rightarrow> v) =
      Inr \<lparr>reply = strip c, model' = m\<rparr>"
    using assms(6)
    by (auto simp: spec_reported_model_def split: option.splits json.splits)
  with assms(3,4) show ?thesis
    by (simp add: chat_resolved[OF assms(1)] call_upstream_response[OF assms(2)]
        handle_response_def extract_reply_ok[OF assms(5)] http_status_def)
qed

theorem chat_success_witness:
  \<open>spec_resolved_key
     (example_world Map.empty
        (Response
           \<lparr>status_code = 200,
            resp_text = ''{"model": "openai/gpt-4o-mini-2024-07-18", "choices": [{"message": {"role": "assistant", "content": "  Hi there. "}}]}'',
            resp_json = Some (JObj
              [(''model'', JStr ''openai/gpt-4o-mini-2024-07-18''),
               (''choices'', JArr [JObj [(''message'', JObj
                  [(''role'', JStr ''assistant''), (''content'', JStr ''  Hi there. '')])]])])\<rparr>))
     example_request (Some ''sk-header'') None = Some ''sk-header'' \<and>
   fst (chat
     (example_world Map.empty
        (Response
           \<lparr>status_code = 200,
            resp_text = ''{"model": "openai/gpt-4o-mini-2024-07-18", "choices": [{"message": {"role": "assistant", "content": "  Hi there. "}}]}'',
            resp_json = Some (JObj
              [(''model'', JStr ''openai/gpt-4o-mini-2024-07-18''),
               (''choices'', JArr [JObj [(''message'', JObj
                  [(''role'', JStr ''assistant''), (''content'', JStr ''  Hi there. '')])]])])\<rparr>))
     example_request (Some ''sk-header'') None []) =
     Inr \<lparr>reply = ''Hi there.'', model' = ''openai/gpt-4o-mini-2024-07-18''\<rparr> \<and>
   fst (chat
     (example_world Map.empty
        (Response
           \<lparr>status_code = 200,
            resp_text = ''{"choices": [{"message": {"role": "assistant", "content": "  Hi there. "}}]}'',
            resp_json = Some (JObj
              [(''choices'', JArr [JObj [(''message'', JObj
                  [(''role'', JStr ''assistant''), (''content'', JStr ''  Hi there. '')])]])])\<rparr>))
     example_request (Some ''sk-header'') None []) =
     Inr \<lparr>reply = ''Hi there.'', model' = ''openai/gpt-4o-mini''\<rparr>\<close>
proof -
  let ?d = \<open>JObj
             [(''model'', JStr ''openai/gpt-4o-mini-2024-07-18''),
              (''choices'', JArr [JObj [(''message'', JObj
                 [(''role'', JStr ''assistant''), (''content'', JStr ''  Hi there. '')])]])]\<close>
  let ?d' = \<open>JObj
             [(''choices'', JArr [JObj [(''message'', JObj
                 [(''role'', JStr ''assistant''), (''content'', JStr ''  Hi there. '')])]])]\<close>
  let ?r = \<open>\<lparr>status_code = 200,
            resp_text = ''{"model": "openai/gpt-4o-mini-2024-07-18", "choices": [{"message": {"role": "assistant", "content": "  Hi there. "}}]}'',
            resp_json = Some ?d\<rparr>\<close>
  let ?r' = \<open>\<lparr>status_code = 200,
            resp_text = ''{"choices": [{"message": {"role": "assistant", "content": "  Hi there. "}}]}'',
            resp_json = Some ?d'\<rparr>\<close>
  have h1: \<open>spec_resolved_key (example_world Map.empty res) example_request
      (Some ''sk-header'') None = Some ''sk-header''\<close> for res
    by (simp add: spec_resolved_key_def spec_bearer_token_def example_defs)
  have h2: \<open>requests_post (example_world Map.empty (Response r))
      (build_request (example_world Map.empty (Response r)) example_request ''sk-header'') =
      Response r\<close> for r
    by (simp add: example_world_def)
  have a: \<open>status_code ?r < 400\<close> and a': \<open>status_code ?r' < 400\<close> by simp_all
  have b: \<open>resp_json ?r = Some ?d\<close> and b': \<open>resp_json ?r' = Some ?d'\<close> by simp_all
  have c: \<open>spec_content ?d = Some (JStr ''  Hi there. '')\<close>
    and c': \<open>spec_content ?d' = Some (JStr ''  Hi there. '')\<close>
    by (simp_all add: spec_content_def)
  have m: \<open>spec_reported_model ?d (model example_request) = Some ''openai/gpt-4o-mini-2024-07-18''\<close>
    and m': \<open>spec_reported_model ?d' (model example_request) = Some ''openai/gpt-4o-mini''\<close>
    by (simp_all add: spec_reported_model_def spec_model_field_def example_request_def)
  have s: \<open>strip ''  Hi there. '' = ''Hi there.''\<close>
    by (simp add: strip_def isspace_def)
  from chat_success[OF h1 h2 a b c m, where calls = \<open>[]\<close>]
    chat_success[OF h1 h2 a' b' c' m', where calls = \<open>[]\<close>] h1 s
  show ?thesis by simp
qed

text \<open>
  The claim as first stated asks only that the body contain \<open>choices[0].message.content\<close>,
  and nothing of the \<open>model\<close> field.  An upstream body with the content in place and
  \<open>"model": null\<close> yields no \<open>ChatResponse\<close>: the response model declares \<open>model: str\<close>, and
  its construction raises.  A body whose content is \<open>null\<close> has no string to trim, and the
  handler answers 500.
\<close>

theorem chat_success_counterexample:
  \<open>spec_resolved_key
     (example_world Map.empty
        (Response
           \<lparr>status_code = 200,
            resp_text = ''{"model": null, "choices": [{"message": {"role": "assistant", "content": "Hi there."}}]}'',
            resp_json = Some (JObj
              [(''model'', JNull),
               (''choices'', JArr [JObj [(''message'', JObj
                  [(''role'', JStr ''assistant''), (''content'', JStr ''Hi there.'')])]])])\<rparr>))
     example_request (Some ''sk-header'') None = Some ''sk-header'' \<and>
   spec_content (JObj
              [(''model'', JNull),
               (''choices'', JArr [JObj [(''message'', JObj
                  [(''role'', JStr ''assistant''), (''content'', JStr ''Hi there.'')])]])]) =
     Some (JStr ''Hi there.'') \<and>
   spec_model_field (JObj
              [(''model'', JNull),
               (''choices'', JArr [JObj [(''message'', JObj
                  [(''role'', JStr ''assistant''), (''content'', JStr ''Hi there.'')])]])]) =
     Some JNull \<and>
   fst (chat
     (example_world Map.empty
        (Response
           \<lparr>status_code = 200,
            resp_text = ''{"model": null, "choices": [{"message": {"role": "assistant", "content": "Hi there."}}]}'',
            resp_json = Some (JObj
              [(''model'', JNull),
               (''choices'', JArr [JObj [(''message'', JObj
                  [(''role'', JStr ''assistant''), (''content'', JStr ''Hi there.'')])]])])\<rparr>))
     example_request (Some ''sk-header'') None []) = Inl (Uncaught ValidationError) \<and>
   spec_content (JObj
              [(''choices'', JArr [JObj [(''message'', JObj
                  [(''role'', JStr ''assistant''), (''content'', JNull)])]])]) =
     Some JNull \<and>
   fst (chat
     (example_world Map.empty
        (Response
           \<lparr>status_code = 200,
            resp_text = ''{"choices": [{"message": {"role": "assistant", "content": null}}]}'',
            resp_json = Some (JObj
              [(''choices'', JArr [JObj [(''message'', JObj
                  [(''role'', JStr ''assistant''), (''content'', JNull)])]])])\<rparr>))
     example_request (Some ''sk-header'') None []) =
     Inl (HTTPException 500 (JStr ''Unexpected response format from OpenRouter''))\<close>
  by (simp add: chat_def bearer_key_def resolve_api_key_def py_or_def getenv_def
      call_upstream_def handle_response_def extract_reply_def getitem_def
      spec_resolved_key_def spec_bearer_token_def spec_content_def spec_model_field_def
      example_defs)

section \<open>The outbound request\<close>

text \<open>\<open>dict.update\<close> is a shallow merge in which the argument's keys overwrite.\<close>

lemma dict_update_merge:
  "distinct (map fst other) \<Longrightarrow> map_of (dict_update d other) = map_of d ++ map_of other"
proof (induction other arbitrary: d)
  case Nil
  then show ?case by (simp add: dict_update_def)
next
  case (Cons kv other)
  obtain k v where kv: "kv = (k, v)" by (cases kv)
  from Cons.prems kv have fresh: "map_of other k = None" and dist: "distinct (map fst other)"
    by (auto simp: map_of_eq_None_iff)
  have "map_of (dict_update d (kv # other)) = map_of (dict_update (AList.update k v d) other)"
    by (simp add: dict_update_def kv)
  also have "\<dots> = (map_of d)(k \<mapsto> v) ++ map_of other"
    by (simp only: Cons.IH[OF dist] update_conv')
  also have "\<dots> = map_of d ++ map_of (kv # other)"
    using fresh by (auto simp: kv map_add_def fun_eq_iff split: option.splits)
  finally show ?case .
qed

lemma build_payload_merge:
  assumes "dict_keys_distinct (extra req)"
  shows "map_of (build_payload req) =
    spec_shallow_merge
      (map_of
         [(''model'', JStr (model req)),
          (''messages'',
           JArr (map (\<lambda>m. JObj [(''role'', JStr (role m)), (''content'', JStr (content m))])
                  (messages req))),
          (''temperature'', case temperature req of None \<Rightarrow> JNull | Some t \<Rightarrow> JFloat t),
          (''top_p'', case top_p req of None \<Rightarrow> JNull | Some t \<Rightarrow> JFloat t)])
      (extra req)"
proof (cases "extra req")
  case None
  then show ?thesis
    by (simp add: build_payload_def spec_shallow_merge_def Message_dict_def[abs_def]
        optional_float_def)
next
  case (Some ex)
  with assms have "distinct (map fst ex)" by (simp add: dict_keys_distinct_def)
  then show ?thesis
    using Some
    by (cases "ex = []")
       (simp_all add: build_payload_def spec_shallow_merge_def Message_dict_def[abs_def]
          optional_float_def dict_update_merge)
qed

text \<open>
  C7.  For every \<open>POST /chat\<close> request with a resolved key, the one outbound request is a
  POST to \<open>https://openrouter.ai/api/v1/chat/completions\<close> with a timeout of 60 seconds, the
  headers \<open>Authorization: Bearer <resolved key>\<close>, \<open>Content-Type: application/json\<close>,
  \<open>HTTP-Referer\<close> (the environment variable \<open>APP_URL\<close>, \<open>http://localhost:3000\<close> when unset)
  and \<open>X-Title\<close> (the environment variable \<open>APP_NAME\<close>, \<open>Vibe Chatbot\<close> when unset), and a
  JSON body that is \<open>{model, messages, temperature, top_p}\<close> shallow-merged with \<open>extra\<close>
  when present: a key of \<open>extra\<close> overwrites a built-in key of the same name.  The keys
  of the dictionary \<open>extra\<close> are distinct.
\<close>

theorem chat_outbound_request:
  assumes "spec_resolved_key w req x_openrouter_key authorization = Some key"
    and "dict_keys_distinct (extra req)"
  shows "snd (chat w req x_openrouter_key authorization calls) =
           calls @
           [\<lparr>http_method = ''POST'',
             url = ''https://openrouter.ai/api/v1/chat/completions'',
             headers =
               [(''Authorization'', ''Bearer '' @ key),
                (''Content-Type'', ''application/json''),
                (''HTTP-Referer'',
                 case environ w ''APP_URL'' of None \<Rightarrow> ''http://localhost:3000'' | Some u \<Rightarrow> u),
                (''X-Title'',
                 case environ w ''APP_NAME'' of None \<Rightarrow> ''Vibe Chatbot'' | Some t \<Rightarrow> t)],
             json_payload = build_payload req,
             timeout = 60\<rparr>] \<and>
         map_of (build_payload req) =
           spec_shallow_merge
             (map_of
                [(''model'', JStr (model req)),
                 (''messages'',
                  JArr (map (\<lambda>m. JObj [(''role'', JStr (role m)), (''content'', JStr (content m))])
                         (messages req))),
                 (''temperature'', case temperature req of None \<Rightarrow> JNull | Some t \<Rightarrow> JFloat t),
                 (''top_p'', case top_p req of None \<Rightarrow> JNull | Some t \<Rightarrow> JFloat t)])
             (extra req)"
  using build_payload_merge[OF assms(2)]
  by (simp add: chat_resolved[OF assms(1)] call_upstream_calls build_request_def
      getenv_default_def)

theorem chat_outbound_request_witness:
  "spec_resolved_key (example_world [''APP_NAME'' \<mapsto> ''My App''] (RequestException ''down''))
     (example_request\<lparr>extra := Some [(''stream'', JBool False), (''model'', JStr ''mistralai/mistral-7b'')]\<rparr>)
     None (Some ''Bearer sk-bearer'') = Some ''sk-bearer'' \<and>
   dict_keys_distinct
     (extra (example_request\<lparr>extra := Some [(''stream'', JBool False), (''model'', JStr ''mistralai/mistral-7b'')]\<rparr>)) \<and>
   snd (chat (example_world [''APP_NAME'' \<mapsto> ''My App''] (RequestException ''down''))
     (example_request\<lparr>extra := Some [(''stream'', JBool False), (''model'', JStr ''mistralai/mistral-7b'')]\<rparr>)
     None (Some ''Bearer sk-bearer'') []) =
     [\<lparr>http_method = ''POST'',
       url = ''https://openrouter.ai/api/v1/chat/completions'',
       headers =
         [(''Authorization'', ''Bearer sk-bearer''),
          (''Content-Type'', ''application/json''),
          (''HTTP-Referer'', ''http://localhost:3000''),
          (''X-Title'', ''My App'')],
       json_payload =
         [(''model'', JStr ''mistralai/mistral-7b''),
          (''messages'', JArr [JObj [(''role'', JStr ''user''), (''content'', JStr ''Hello'')]]),
          (''temperature'', JFloat (7 / 10)),
          (''top_p'', JFloat 1),
          (''stream'', JBool False)],
       timeout = 60\<rparr>]"
proof -
  let ?w = "example_world [''APP_NAME'' \<mapsto> ''My App''] (RequestException ''down'')"
  let ?req = "example_request\<lparr>extra :=
    Some [(''stream'', JBool False), (''model'', JStr ''mistralai/mistral-7b'')]\<rparr>"
  have h1: "spec_resolved_key ?w ?req None (Some ''Bearer sk-bearer'') = Some ''sk-bearer''"
    by (simp add: spec_resolved_key_def spec_bearer_token_def example_defs eval_strings)
  have h2: "dict_keys_distinct (extra ?req)"
    by (simp add: dict_keys_distinct_def)
  have p: "build_payload ?req =
         [(''model'', JStr ''mistralai/mistral-7b''),
          (''messages'', JArr [JObj [(''role'', JStr ''user''), (''content'', JStr ''Hello'')]]),
          (''temperature'', JFloat (7 / 10)),
          (''top_p'', JFloat 1),
          (''stream'', JBool False)]"
    by (simp add: build_payload_def dict_update_def example_request_def Message_dict_def
        optional_float_def)
  from chat_outbound_request[OF h1 h2, where calls = "[]"] h1 h2 p
  show ?thesis by (simp add: example_world_def)
qed

end
